theory Spec2Isabelle
  imports Complex_Main
begin

section \<open>Text cells\<close>

text \<open>
  A Python \<open>str\<close> is modelled by a \<^typ>\<open>string\<close> holding its UTF-8 bytes. The
  operations on text are exact for text of code points below U+0100 (ASCII and the
  Latin-1 supplement, the latter as two bytes with the lead byte 0xC2 or 0xC3) and for
  characters that are neither digits nor white space nor letters with another case; the
  decimal digits, the spaces and the case pairs of code points from U+0100 on are
  outside the model. A missing cell (\<open>NaN\<close>, \<open>NaT\<close>) is \<open>None\<close>. The operations on
  tables are those of pandas 2.x, the release line of the scripts' time: \<open>astype(str)\<close>
  writes a missing cell as the text \<open>nan\<close>, and grouping by a categorical column keeps
  the categories that have no rows.
\<close>

definition is_digit :: "char \<Rightarrow> bool" where
  \<comment> \<open>the digits 0-9, the only decimal digits below U+0100\<close>
  "is_digit c = (let n = (of_char c :: nat) in 48 \<le> n \<and> n \<le> 57)"

text \<open>
  The characters \<open>str.strip()\<close> removes: tab, line feed, vertical tab, form feed,
  carriage return, the four separators 0x1C-0x1F and the space, each one byte; and the
  next-line character U+0085 and the no-break space U+00A0, which are the byte 0xC2
  followed by 0x85 or 0xA0.
\<close>

definition is_space :: "char \<Rightarrow> bool" where
  "is_space c = (let n = (of_char c :: nat) in (9 \<le> n \<and> n \<le> 13) \<or> (28 \<le> n \<and> n \<le> 32))"

definition is_space2 :: "char \<Rightarrow> char \<Rightarrow> bool" where
  "is_space2 c d = ((of_char c :: nat) = 194 \<and> ((of_char d :: nat) = 133 \<or> (of_char d :: nat) = 160))"

fun lstrip :: "string \<Rightarrow> string" where
  "lstrip [] = []"
| "lstrip [c] = (if is_space c then [] else [c])"
| "lstrip (c # d # s) =
     (if is_space c then lstrip (d # s)
      else if is_space2 c d then lstrip s
      else c # d # s)"

fun rstrip_rev :: "string \<Rightarrow> string" where
  \<comment> \<open>on the reversed text: the last byte comes first\<close>
  "rstrip_rev [] = []"
| "rstrip_rev [d] = (if is_space d then [] else [d])"
| "rstrip_rev (d # c # s) =
     (if is_space d then rstrip_rev (c # s)
      else if is_space2 c d then rstrip_rev s
      else d # c # s)"

definition strip :: "string \<Rightarrow> string" where
  "strip s = rev (rstrip_rev (rev (lstrip s)))"

text \<open>
  \<open>normalize_booking_id\<close> (exploration_dq_checks.py, exploration_insights.py, kpi_viz.py;
  the three copies agree). The argument is \<open>None\<close> for a cell with \<open>pd.isna(x)\<close>, and
  \<open>Some (str(x))\<close> otherwise; \<open>re.sub(r'\D+', '', s)\<close> keeps the digits of \<open>s\<close>.
\<close>

definition normalize_booking_id :: "string option \<Rightarrow> string option" where
  "normalize_booking_id x =
     (case x of
        None \<Rightarrow> None
      | Some v \<Rightarrow>
          (let s = strip v;
               s_num = filter is_digit s
           in if s_num \<noteq> [] then Some s_num else None))"

text \<open>
  \<open>str.upper()\<close>. A lower-case ASCII letter and the lower-case letters U+00E0-U+00FE
  (without the division sign U+00F7; in UTF-8 the byte 0xC3 followed by 0xA0-0xBE) lose
  bit 5 of their last byte. Three letters of the Latin-1 supplement leave it: the sharp
  s U+00DF becomes SS, the y with diaeresis U+00FF becomes U+0178 and the micro sign
  U+00B5 becomes the Greek capital mu U+039C.
\<close>

definition clear_bit5 :: "char \<Rightarrow> char" where
  "clear_bit5 c = (case c of Char b0 b1 b2 b3 b4 b5 b6 b7 \<Rightarrow> Char b0 b1 b2 b3 b4 False b6 b7)"

definition upper_char :: "char \<Rightarrow> char" where
  "upper_char c =
     (let n = (of_char c :: nat) in if 97 \<le> n \<and> n \<le> 122 then clear_bit5 c else c)"

fun upper :: "string \<Rightarrow> string" where
  "upper [] = []"
| "upper [c] = [upper_char c]"
| "upper (c # d # s) =
     (let m = (of_char c :: nat); n = (of_char d :: nat) in
      if m = 195 \<and> 160 \<le> n \<and> n \<le> 190 \<and> n \<noteq> 183 then c # clear_bit5 d # upper s
      else if m = 195 \<and> n = 159 then ''SS'' @ upper s
      else if m = 195 \<and> n = 191 then CHR 0xC5 # CHR 0xB8 # upper s
      else if m = 194 \<and> n = 181 then CHR 0xCE # CHR 0x9C # upper s
      else upper_char c # upper (d # s))"

definition astype_str :: "string option \<Rightarrow> string" where
  \<comment> \<open>\<open>.astype(str)\<close>: a missing cell becomes the text \<open>nan\<close>\<close>
  "astype_str c = (case c of None \<Rightarrow> ''nan'' | Some s \<Rightarrow> s)"

definition replace_spaces :: "string \<Rightarrow> string" where
  \<comment> \<open>\<open>.str.replace(' ', '')\<close>\<close>
  "replace_spaces s = filter (\<lambda>c. c \<noteq> CHR '' '') s"

section \<open>Numbers, dates and weekdays\<close>

text \<open>
  A numeric cell is a \<^typ>\<open>real option\<close>: the floats of pandas are idealised as reals, and
  \<open>NaN\<close> is \<open>None\<close>. A date cell is the day number counted from 1970-01-01 (a Thursday),
  \<open>NaT\<close> being \<open>None\<close>.
\<close>

definition fillna0 :: "real option \<Rightarrow> real" where
  \<comment> \<open>\<open>.fillna(0)\<close>\<close>
  "fillna0 c = (case c of None \<Rightarrow> 0 | Some v \<Rightarrow> v)"

definition dropna :: "'a option list \<Rightarrow> 'a list" where
  "dropna cs = List.map_filter (\<lambda>c. c) cs"

definition sum_skipna :: "real option list \<Rightarrow> real" where
  \<comment> \<open>\<open>.sum()\<close> with \<open>skipna=True\<close>: the sum of the cells that are present, 0 when none is\<close>
  "sum_skipna cs = sum_list (dropna cs)"

definition mean_skipna :: "real option list \<Rightarrow> real option" where
  \<comment> \<open>\<open>.mean()\<close>: the mean of the cells that are present, \<open>NaN\<close> when none is\<close>
  "mean_skipna cs =
     (let vs = dropna cs in if vs = [] then None else Some (sum_list vs / real (length vs)))"

definition DOW_ORDER :: "string list" where
  "DOW_ORDER = [''Monday'', ''Tuesday'', ''Wednesday'', ''Thursday'', ''Friday'',
                ''Saturday'', ''Sunday'']"

definition day_name :: "int \<Rightarrow> string" where
  \<comment> \<open>\<open>.dt.day_name()\<close>\<close>
  "day_name d = DOW_ORDER ! nat ((d + 3) mod 7)"

section \<open>The three sheets\<close>

record booking =
  bookingid_norm :: "string option"
  reservation_date :: "int option"
  cancellation_date :: "int option"
  flight_date :: "int option"
  origin :: "string option"
  destination :: "string option"
  passengercount :: "real option"
  revenue_ticket :: "real option"
  revenue_ancillary_pre_check_in :: "real option"
  revenue_ancillary_at_check_in :: "real option"
  flightnumber :: "int option"
  routing :: "string option"

record flight =
  flight_flightnumber :: "int option"
  flightdate :: "int option"
  availablecapacity :: "real option"
  timeofday :: "string option"
  routetype :: "string option"

definition REV_COLS :: "booking \<Rightarrow> real option list" where
  "REV_COLS b = [revenue_ticket b, revenue_ancillary_pre_check_in b,
                 revenue_ancillary_at_check_in b]"

definition total_revenue :: "booking \<Rightarrow> real" where
  \<comment> \<open>\<open>booking[rev_cols].sum(axis=1, skipna=True)\<close>\<close>
  "total_revenue b = sum_skipna (REV_COLS b)"

definition ancillary_total :: "booking \<Rightarrow> real" where
  "ancillary_total b = fillna0 (revenue_ancillary_pre_check_in b)
                       + fillna0 (revenue_ancillary_at_check_in b)"

definition is_cancelled :: "booking \<Rightarrow> bool" where
  \<comment> \<open>\<open>booking["cancellation_date"].notna()\<close>\<close>
  "is_cancelled b = (cancellation_date b \<noteq> None)"


definition od_code :: "string option \<Rightarrow> string" where
  \<comment> \<open>\<open>.astype(str).str.upper().str.strip()\<close>, as both KPI scripts clean origin and destination\<close>
  "od_code c = strip (upper (astype_str c))"

section \<open>Grouping and sorting\<close>

text \<open>
  \<open>groupby\<close> yields one group per distinct key, the keys in ascending order and the rows
  of a group in their order in the table. The order of the keys is given by a comparison
  function; a missing key component sorts last.
\<close>

fun insort_by :: "('k \<Rightarrow> 'k \<Rightarrow> bool) \<Rightarrow> 'k \<Rightarrow> 'k list \<Rightarrow> 'k list" where
  "insort_by le x [] = [x]"
| "insort_by le x (y # ys) = (if le x y then x # y # ys else y # insort_by le x ys)"

definition sort_by :: "('k \<Rightarrow> 'k \<Rightarrow> bool) \<Rightarrow> 'k list \<Rightarrow> 'k list" where
  "sort_by le ks = foldr (insort_by le) ks []"

definition groupby :: "('k \<Rightarrow> 'k \<Rightarrow> bool) \<Rightarrow> ('r \<Rightarrow> 'k) \<Rightarrow> 'r list \<Rightarrow> ('k \<times> 'r list) list" where
  "groupby le key rows =
     map (\<lambda>k. (k, filter (\<lambda>r. key r = k) rows)) (sort_by le (remdups (map key rows)))"

definition groupby_dropna :: "('k \<Rightarrow> 'k \<Rightarrow> bool) \<Rightarrow> ('r \<Rightarrow> 'k option) \<Rightarrow> 'r list \<Rightarrow> ('k \<times> 'r list) list" where
  \<comment> \<open>the default \<open>dropna=True\<close>: rows with a missing key are in no group\<close>
  "groupby_dropna le key rows =
     map (\<lambda>k. (k, filter (\<lambda>r. key r = Some k) rows))
       (sort_by le (remdups (dropna (map key rows))))"

fun str_le :: "string \<Rightarrow> string \<Rightarrow> bool" where
  "str_le [] t = True"
| "str_le (c # s) [] = False"
| "str_le (c # s) (d # t) =
     (if c = d then str_le s t else (of_char c :: nat) < of_char d)"

definition int_le :: "int \<Rightarrow> int \<Rightarrow> bool" where
  "int_le a b = (a \<le> b)"

fun nan_last :: "('a \<Rightarrow> 'a \<Rightarrow> bool) \<Rightarrow> 'a option \<Rightarrow> 'a option \<Rightarrow> bool" where
  "nan_last le None b = (b = None)"
| "nan_last le (Some a) None = True"
| "nan_last le (Some a) (Some b) = le a b"

definition lex_le :: "('a \<Rightarrow> 'a \<Rightarrow> bool) \<Rightarrow> ('b \<Rightarrow> 'b \<Rightarrow> bool) \<Rightarrow> 'a \<times> 'b \<Rightarrow> 'a \<times> 'b \<Rightarrow> bool" where
  "lex_le le1 le2 p q = (if fst p = fst q then le2 (snd p) (snd q) else le1 (fst p) (fst q))"

section \<open>The leg table\<close>

text \<open>
  exploration_insights.py (lines 104-114) and kpi_viz.py (lines 162-187) build the same
  table: the bookings grouped by flight number, flight date, origin and destination
  (\<open>dropna=False\<close>: a missing key component is a key of its own), with the passengers and
  the revenue summed and the cancelled bookings counted, left-joined to the flight sheet
  on flight number and date. A leg without a flight row keeps a missing capacity; a leg
  with several gives one row per flight row. The merge matches a missing key with a
  missing key.
\<close>

record leg =
  leg_flightnumber :: "int option"
  leg_flight_date :: "int option"
  leg_origin :: string
  leg_destination :: string
  pax :: real
  revenue :: real
  cancels :: nat
  leg_availablecapacity :: "real option"
  leg_timeofday :: "string option"
  leg_routetype :: "string option"

type_synonym leg_key = "int option \<times> int option \<times> string \<times> string"

definition booking_leg_key :: "booking \<Rightarrow> leg_key" where
  "booking_leg_key b =
     (flightnumber b, flight_date b, od_code (origin b), od_code (destination b))"

definition leg_key_le :: "leg_key \<Rightarrow> leg_key \<Rightarrow> bool" where
  "leg_key_le = lex_le (nan_last int_le) (lex_le (nan_last int_le) (lex_le str_le str_le))"

definition merge_flight :: "flight list \<Rightarrow> leg_key \<times> booking list \<Rightarrow> leg list" where
  "merge_flight fl kg =
     (case kg of ((fn, fd, org, dst), g) \<Rightarrow>
        (let r = \<lparr> leg_flightnumber = fn, leg_flight_date = fd, leg_origin = org,
                   leg_destination = dst,
                   pax = sum_skipna (map passengercount g),
                   revenue = sum_list (map total_revenue g),
                   cancels = length (filter is_cancelled g),
                   leg_availablecapacity = None, leg_timeofday = None,
                   leg_routetype = None \<rparr>
         in case filter (\<lambda>f. flight_flightnumber f = fn \<and> flightdate f = fd) fl of
              [] \<Rightarrow> [r]
            | ms \<Rightarrow> map (\<lambda>f. r\<lparr> leg_availablecapacity := availablecapacity f,
                                leg_timeofday := timeofday f,
                                leg_routetype := routetype f \<rparr>) ms))"

definition leg_table :: "booking list \<Rightarrow> flight list \<Rightarrow> leg list" where
  "leg_table bk fl = concat (map (merge_flight fl) (groupby leg_key_le booking_leg_key bk))"

definition load_factor :: "leg \<Rightarrow> real option" where
  \<comment> \<open>\<open>np.where(leg["availablecapacity"] > 0, leg["pax"] / leg["availablecapacity"], np.nan)\<close>\<close>
  "load_factor r =
     (case leg_availablecapacity r of
        None \<Rightarrow> None
      | Some c \<Rightarrow> if c > 0 then Some (pax r / c) else None)"

definition rev_per_pax :: "leg \<Rightarrow> real option" where
  \<comment> \<open>\<open>np.where(leg["pax"] > 0, leg["revenue"] / leg["pax"], np.nan)\<close>\<close>
  "rev_per_pax r = (if pax r > 0 then Some (revenue r / pax r) else None)"

definition leg_dow :: "leg \<Rightarrow> string option" where
  \<comment> \<open>\<open>leg["flight_date"].dt.day_name()\<close>\<close>
  "leg_dow r = map_option day_name (leg_flight_date r)"

section \<open>KPIs by day of week (kpi_viz.py)\<close>

text \<open>
  kpi_viz.py turns the weekday column of the leg table into a categorical with the
  categories \<open>DOW_ORDER\<close>. Grouping by a categorical key gives one group per category, in
  the order of the categories, a category without rows having the empty group (pandas
  2.x, \<open>observed=False\<close>); rows with a missing key are in no group. \<open>reindex\<close> then
  looks every weekday of \<open>DOW_ORDER\<close> up, a label that is absent giving \<open>NaN\<close>.
\<close>

definition groupby_categorical :: "'k list \<Rightarrow> ('r \<Rightarrow> 'k option) \<Rightarrow> 'r list \<Rightarrow> ('k \<times> 'r list) list" where
  "groupby_categorical cats key rows = map (\<lambda>c. (c, filter (\<lambda>r. key r = Some c) rows)) cats"

definition reindex :: "'k list \<Rightarrow> ('k \<times> 'v option) list \<Rightarrow> ('k \<times> 'v option) list" where
  "reindex labels s =
     map (\<lambda>k. (k, case map_of s k of None \<Rightarrow> None | Some v \<Rightarrow> v)) labels"

definition fwlf :: "leg list \<Rightarrow> real option" where
  \<comment> \<open>the function applied to each group (kpi_viz.py, line 200)\<close>
  "fwlf x =
     (if sum_skipna (map leg_availablecapacity x) > 0
      then Some (sum_list (map pax x) / sum_skipna (map leg_availablecapacity x))
      else None)"

definition fwlf_dow :: "leg list \<Rightarrow> (string \<times> real option) list" where
  "fwlf_dow leg =
     reindex DOW_ORDER (map (\<lambda>(d, x). (d, fwlf x)) (groupby_categorical DOW_ORDER leg_dow leg))"

text \<open>
  The realized passengers (lines 210-215): per booking the passenger count, a missing one
  as 0, less 1 when the booking is cancelled, summed per flight number and flight date
  (bookings with a missing flight number or date are dropped by this \<open>groupby\<close>), and
  left-joined to the leg table on these two columns.
\<close>

definition realized_pax_row :: "booking \<Rightarrow> real" where
  "realized_pax_row b = fillna0 (passengercount b) - (if is_cancelled b then 1 else 0)"

definition flight_key :: "booking \<Rightarrow> int option \<times> int option" where
  "flight_key b = (flightnumber b, flight_date b)"

definition realized :: "booking list \<Rightarrow> ((int option \<times> int option) \<times> real) list" where
  "realized bk =
     map (\<lambda>(k, g). (k, sum_list (map realized_pax_row g)))
       (groupby (lex_le (nan_last int_le) (nan_last int_le)) flight_key
          (filter (\<lambda>b. flightnumber b \<noteq> None \<and> flight_date b \<noteq> None) bk))"

definition realized_pax :: "booking list \<Rightarrow> leg \<Rightarrow> real option" where
  \<comment> \<open>the column \<open>realized_pax\<close> of \<open>leg2\<close>\<close>
  "realized_pax bk r = map_of (realized bk) (leg_flightnumber r, leg_flight_date r)"

definition calf :: "booking list \<Rightarrow> leg \<Rightarrow> real option" where
  \<comment> \<open>\<open>np.where(leg2["availablecapacity"] > 0, leg2["realized_pax"] / leg2["availablecapacity"], np.nan)\<close>\<close>
  "calf bk r =
     (case leg_availablecapacity r of
        None \<Rightarrow> None
      | Some c \<Rightarrow> if c > 0 then map_option (\<lambda>p. p / c) (realized_pax bk r) else None)"

definition calf_dow :: "booking list \<Rightarrow> leg list \<Rightarrow> (string \<times> real option) list" where
  \<comment> \<open>\<open>leg2.groupby("dow")["calf"].mean().reindex(DOW_ORDER)\<close>\<close>
  "calf_dow bk leg =
     reindex DOW_ORDER
       (map (\<lambda>(d, x). (d, mean_skipna (map (calf bk) x)))
          (groupby_categorical DOW_ORDER leg_dow leg))"

definition leg_realized_ratio :: "leg \<Rightarrow> real option" where
  \<comment> \<open>booked passengers less cancelled bookings of the leg itself, per seat\<close>
  "leg_realized_ratio r =
     (case leg_availablecapacity r of
        None \<Rightarrow> None
      | Some c \<Rightarrow> if c > 0 then Some ((pax r - real (cancels r)) / c) else None)"

text \<open>
  PACS (lines 224-240). The two assumptions are local constants of \<open>main\<close>; the row
  computation is written here with them as arguments. \<open>onward_rev_map\<close> is the dictionary
  of the mean revenue of the FCO-PMO legs per weekday: empty when there is no such leg,
  and otherwise with a key for every category, the value of a weekday without such a leg
  being \<open>NaN\<close>. \<open>.get(r["dow"], 0.0)\<close> gives 0 only for a key that is absent.
\<close>

definition connection_value_pct :: real where
  "connection_value_pct = 0.25"

definition variable_cost_per_seat_leg :: real where
  "variable_cost_per_seat_leg = 40"

definition fco_pmo :: "leg list \<Rightarrow> leg list" where
  "fco_pmo leg = filter (\<lambda>r. leg_origin r = ''FCO'' \<and> leg_destination r = ''PMO'') leg"

definition onward_rev_map :: "leg list \<Rightarrow> (string \<times> real option) list" where
  "onward_rev_map leg =
     (if fco_pmo leg \<noteq> []
      then map (\<lambda>(d, x). (d, mean_skipna (map (\<lambda>r. Some (revenue r)) x)))
             (groupby_categorical DOW_ORDER leg_dow (fco_pmo leg))
      else [])"

definition dict_get :: "('k \<times> 'v) list \<Rightarrow> 'k option \<Rightarrow> 'v \<Rightarrow> 'v" where
  \<comment> \<open>\<open>d.get(key, default)\<close>; a missing key (\<open>NaN\<close>) is never in the dictionary\<close>
  "dict_get d k dflt =
     (case k of None \<Rightarrow> dflt
      | Some k' \<Rightarrow> (case map_of d k' of None \<Rightarrow> dflt | Some v \<Rightarrow> v))"

definition connection_credit :: "real \<Rightarrow> (string \<times> real option) list \<Rightarrow> leg \<Rightarrow> real option" where
  "connection_credit pct onward r =
     (if leg_origin r = ''FRA'' \<and> leg_destination r = ''FCO''
      then map_option (\<lambda>m. pct * m) (dict_get onward (leg_dow r) (Some 0))
      else Some 0)"

definition pacs :: "real \<Rightarrow> real \<Rightarrow> (string \<times> real option) list \<Rightarrow> leg \<Rightarrow> real option" where
  "pacs pct vc onward r =
     (let rev = map_option (\<lambda>c. revenue r + c) (connection_credit pct onward r);
          seats = (case leg_availablecapacity r of None \<Rightarrow> 0 | Some c \<Rightarrow> c)
      in if seats \<noteq> 0 \<and> seats > 0
         then map_option (\<lambda>v. (v - seats * vc) / seats) rev
         else None)"

definition pacs_vals :: "leg list \<Rightarrow> (string option \<times> real option) list" where
  "pacs_vals leg =
     map (\<lambda>r. (leg_dow r,
                pacs connection_value_pct variable_cost_per_seat_leg (onward_rev_map leg) r)) leg"

section \<open>Tables by weekday (exploration_insights.py)\<close>













text \<open>
  The correlation of load factor and revenue per passenger (lines 190-193). \<open>dropna()\<close>
  keeps the legs on which both are present. \<open>DataFrame.corr()\<close> is the Pearson
  coefficient: the sum of the products of the deviations from the means, divided by the
  root of the product of the two sums of squared deviations, and \<open>NaN\<close> when this divisor
  is 0.
\<close>

definition corr_df :: "leg list \<Rightarrow> (real \<times> real) list" where
  "corr_df leg =
     List.map_filter (\<lambda>r. case (load_factor r, rev_per_pax r) of
                              (Some x, Some y) \<Rightarrow> Some (x, y)
                            | _ \<Rightarrow> None) leg"

definition mean :: "real list \<Rightarrow> real" where
  "mean xs = sum_list xs / real (length xs)"

definition ssqdm :: "real list \<Rightarrow> real" where
  "ssqdm xs = sum_list (map (\<lambda>x. (x - mean xs) ^ 2) xs)"

definition pearson :: "(real \<times> real) list \<Rightarrow> real option" where
  "pearson ps =
     (let xs = map fst ps; ys = map snd ps;
          covxy = sum_list (map (\<lambda>(x, y). (x - mean xs) * (y - mean ys)) ps);
          divisor = sqrt (ssqdm xs * ssqdm ys)
      in if divisor \<noteq> 0 then Some (covxy / divisor) else None)"

definition rev_lf_corr :: "leg list \<Rightarrow> real option" where
  "rev_lf_corr leg = (if length (corr_df leg) > 2 then pearson (corr_df leg) else None)"

section \<open>Data-quality checks (exploration_dq_checks.py)\<close>

text \<open>
  A data frame is its list of column names and its rows. The rows are records with a
  field for every column the checks read; the field of a column that the frame does not
  have is never read, since selecting an absent column raises \<open>KeyError\<close>.
\<close>

record 'r frame =
  columns :: "string list"
  frame_rows :: "'r list"

record passenger =
  passenger_bookingid_norm :: "string option"
  booking_channel :: "string option"
  device_used :: "string option"

record dq_leg =
  dq_flightnumber :: "int option"
  dq_flight_date :: "int option"
  dq_origin :: "string option"
  dq_destination :: "string option"
  dq_pax :: real
  dq_availablecapacity :: "real option"

datatype error = KeyError string

datatype anomaly = Bookings "booking list" | Passengers "passenger list" | Legs "dq_leg list"

definition REV_COL_NAMES :: "string list" where
  "REV_COL_NAMES = [''revenue_per_booking_(ticket)'',
                    ''revenue_per_booking_(ancilliary_pre_check_in)'',
                    ''revenue_per_booking_(ancilliary_at_check_in)'']"

definition guarded :: "string list \<Rightarrow> string list \<Rightarrow> string \<times> anomaly \<Rightarrow> (string \<times> anomaly) list" where
  \<comment> \<open>\<open>if {...}.issubset(df.columns): out[name] = ...\<close>\<close>
  "guarded cols needed entry = (if set needed \<subseteq> set cols then [entry] else [])"

definition require :: "string list \<Rightarrow> string list \<Rightarrow> error + 'a \<Rightarrow> error + 'a" where
  \<comment> \<open>a selection of columns without a guard: the first absent one raises\<close>
  "require cols needed k =
     (case filter (\<lambda>c. c \<notin> set cols) needed of [] \<Rightarrow> k | c # cs \<Rightarrow> Inl (KeyError c))"

definition gt0 :: "real option \<Rightarrow> bool" where
  \<comment> \<open>\<open>column > 0\<close>: false on a missing cell\<close>
  "gt0 c = (case c of None \<Rightarrow> False | Some v \<Rightarrow> v > 0)"

definition lt0 :: "real option \<Rightarrow> bool" where
  "lt0 c = (case c of None \<Rightarrow> False | Some v \<Rightarrow> v < 0)"

definition date_lt :: "int option \<Rightarrow> int option \<Rightarrow> bool" where
  \<comment> \<open>both dates present and the first earlier\<close>
  "date_lt a b = (case (a, b) of (Some x, Some y) \<Rightarrow> x < y | _ \<Rightarrow> False)"

definition multi_valued :: "(passenger \<Rightarrow> string option) \<Rightarrow> passenger list \<Rightarrow> passenger list" where
  \<comment> \<open>\<open>groupby('bookingid_norm')[col].nunique(dropna=False) > 1\<close>, then \<open>isin(ids)\<close>\<close>
  "multi_valued col ps =
     (let ids = map fst (filter (\<lambda>(k, g). length (remdups (map col g)) > 1)
                           (groupby_dropna str_le passenger_bookingid_norm ps))
      in filter (\<lambda>p. case passenger_bookingid_norm p of
                        None \<Rightarrow> False | Some i \<Rightarrow> i \<in> set ids) ps)"

type_synonym dq_leg_key = "int option \<times> int option \<times> string option \<times> string option"

definition dq_booking_key :: "booking \<Rightarrow> dq_leg_key" where
  "dq_booking_key b = (flightnumber b, flight_date b, origin b, destination b)"

definition dq_key_le :: "dq_leg_key \<Rightarrow> dq_leg_key \<Rightarrow> bool" where
  "dq_key_le = lex_le (nan_last int_le) (lex_le (nan_last int_le)
                 (lex_le (nan_last str_le) (nan_last str_le)))"

definition dq_merge_flight :: "flight list \<Rightarrow> dq_leg_key \<times> booking list \<Rightarrow> dq_leg list" where
  "dq_merge_flight fl kg =
     (case kg of ((fn, fd, org, dst), g) \<Rightarrow>
        (let r = \<lparr> dq_flightnumber = fn, dq_flight_date = fd, dq_origin = org,
                   dq_destination = dst, dq_pax = sum_skipna (map passengercount g),
                   dq_availablecapacity = None \<rparr>
         in case filter (\<lambda>f. flight_flightnumber f = fn \<and> flightdate f = fd) fl of
              [] \<Rightarrow> [r]
            | ms \<Rightarrow> map (\<lambda>f. r\<lparr> dq_availablecapacity := availablecapacity f \<rparr>) ms))"

definition dq_leg_table :: "booking list \<Rightarrow> flight list \<Rightarrow> dq_leg list" where
  "dq_leg_table bk fl = concat (map (dq_merge_flight fl) (groupby dq_key_le dq_booking_key bk))"

definition capacity_anomaly :: "dq_leg \<Rightarrow> bool" where
  "capacity_anomaly r =
     (case dq_availablecapacity r of None \<Rightarrow> False | Some c \<Rightarrow> dq_pax r > c)"

definition capacity_out_of_range :: "dq_leg \<Rightarrow> bool" where
  "capacity_out_of_range r =
     (case dq_availablecapacity r of None \<Rightarrow> False | Some c \<Rightarrow> c < 160 \<or> c > 200)"

definition od_sep2 :: string where
  \<comment> \<open>the second separator of line 126: the code points U+00E2, U+2020, U+2019 in UTF-8\<close>
  "od_sep2 = [CHR 0xC3, CHR 0xA2, CHR 0xE2, CHR 0x80, CHR 0xA0, CHR 0xE2, CHR 0x80, CHR 0x99]"

definition squash :: "string option \<Rightarrow> string" where
  \<comment> \<open>\<open>.astype(str).str.upper().str.replace(' ', '')\<close>\<close>
  "squash c = replace_spaces (upper (astype_str c))"

definition routing_inconsistent :: "booking \<Rightarrow> bool" where
  "routing_inconsistent b =
     (let routing_upper = squash (routing b);
          od1 = squash (origin b) @ ''-'' @ squash (destination b);
          od2 = squash (origin b) @ od_sep2 @ squash (destination b)
      in \<not> (routing_upper = od1 \<or> routing_upper = od2))"

definition dup_key :: "booking \<Rightarrow> string option \<times> int option \<times> int option \<times> string option \<times> string option" where
  "dup_key b = (bookingid_norm b, flightnumber b, flight_date b, origin b, destination b)"

definition duplicated :: "booking list \<Rightarrow> booking \<Rightarrow> bool" where
  \<comment> \<open>\<open>booking.duplicated(subset=dup_cols, keep=False)\<close>\<close>
  "duplicated bk b = (length (filter (\<lambda>b'. dup_key b' = dup_key b) bk) > 1)"

definition guarded_checks :: "booking frame \<Rightarrow> passenger frame \<Rightarrow> (string \<times> anomaly) list" where
  \<comment> \<open>checks 1 to 3 (lines 73-97), each behind a test of the columns it reads\<close>
  "guarded_checks booking passenger =
     (let bc = columns booking; bk = frame_rows booking;
          pc = columns passenger; ps = frame_rows passenger
      in guarded bc [''cancellation_date'', ''revenue_per_booking_(ancilliary_at_check_in)'']
           (''canceled_with_checkin_ancillary'',
            Bookings (filter (\<lambda>b. cancellation_date b \<noteq> None
                                    \<and> gt0 (revenue_ancillary_at_check_in b)) bk))
         @ guarded bc [''cancellation_date'', ''reservation_date'']
           (''cancellation_before_reservation'',
            Bookings (filter (\<lambda>b. date_lt (cancellation_date b) (reservation_date b)) bk))
         @ guarded bc [''reservation_date'', ''flight_date'']
           (''reservation_after_flight'',
            Bookings (filter (\<lambda>b. date_lt (flight_date b) (reservation_date b)) bk))
         @ guarded pc [''bookingid_norm'', ''booking_channel'']
           (''same_booking_multiple_channels'', Passengers (multi_valued booking_channel ps))
         @ guarded pc [''bookingid_norm'', ''device_used'']
           (''same_booking_multiple_devices'', Passengers (multi_valued device_used ps)))"

definition unguarded_checks :: "booking list \<Rightarrow> dq_leg list \<Rightarrow> (string \<times> anomaly) list" where
  \<comment> \<open>checks 4 to 10 (lines 99-140), in the order in which they are stored\<close>
  "unguarded_checks bk leg =
     [(''revenue_with_zero_passengers'',
       Bookings (filter (\<lambda>b. passengercount b = Some 0 \<and> total_revenue b > 0) bk)),
      (''negative_revenue_fields'',
       Bookings (filter (\<lambda>b. list_ex lt0 (REV_COLS b)) bk)),
      (''negative_passengers'',
       Bookings (filter (\<lambda>b. lt0 (passengercount b)) bk)),
      (''pax_exceeds_capacity'', Legs (filter capacity_anomaly leg)),
      (''missing_capacity_for_leg'',
       Legs (filter (\<lambda>r. dq_availablecapacity r = None) leg)),
      (''capacity_out_of_range'', Legs (filter capacity_out_of_range leg)),
      (''routing_inconsistent_with_od'', Bookings (filter routing_inconsistent bk)),
      (''duplicate_legs_within_pnr'', Bookings (filter (duplicated bk) bk)),
      (''cancellation_with_positive_pax'',
       Bookings (filter (\<lambda>b. cancellation_date b \<noteq> None \<and> gt0 (passengercount b)) bk)),
      (''missing_flight_date'',
       Bookings (filter (\<lambda>b. flight_date b = None) bk))]"

text \<open>
  \<open>dq_checks\<close>. The selections of checks 4 to 10 have no test of the columns: they are
  written here in the order of the source lines (100, 101, 111, 114, 124, 131, 136), and
  the first one that names an absent column ends the function with \<open>KeyError\<close>, so that
  no result at all is returned.
\<close>

definition dq_checks :: "booking frame \<Rightarrow> passenger frame \<Rightarrow> flight frame
                          \<Rightarrow> error + (string \<times> anomaly) list" where
  "dq_checks booking passenger flight =
     (let bc = columns booking; fc = columns flight
      in require bc REV_COL_NAMES
        (require bc [''passengercount'']
        (require bc [''flightnumber'', ''flight_date'', ''origin'', ''destination'']
        (require fc [''flightnumber'', ''flightdate'', ''availablecapacity'']
        (require bc [''routing'']
        (require bc [''bookingid_norm'']
        (require bc [''cancellation_date'']
        (Inr (guarded_checks booking passenger
              @ unguarded_checks (frame_rows booking)
                  (dq_leg_table (frame_rows booking) (frame_rows flight)))))))))))"

definition anomaly_count :: "anomaly \<Rightarrow> nat" where
  "anomaly_count a =
     (case a of Bookings bs \<Rightarrow> length bs | Passengers ps \<Rightarrow> length ps | Legs ls \<Rightarrow> length ls)"

definition summary :: "(string \<times> anomaly) list \<Rightarrow> (string \<times> nat) list" where
  \<comment> \<open>\<open>main\<close>, line 157: \<open>{k: len(v) for k, v in anomalies.items()}\<close>\<close>
  "summary anomalies = map (\<lambda>(k, v). (k, anomaly_count v)) anomalies"

section \<open>Sample data\<close>

text \<open>
  The scenario of the specification: bookings on flight 100 of 2024-06-01 (day 19875, a
  Saturday) from FRA to FCO with 50 and 60 passengers, and a flight row with 200 seats.
\<close>

definition sample_booking :: booking where
  "sample_booking =
     \<lparr> bookingid_norm = Some ''1001'', reservation_date = Some 19800,
       cancellation_date = None, flight_date = Some 19875,
       origin = Some ''fra '', destination = Some ''FCO'',
       passengercount = Some 50, revenue_ticket = Some 100,
       revenue_ancillary_pre_check_in = None,
       revenue_ancillary_at_check_in = Some 20,
       flightnumber = Some 100, routing = Some ''FRA-FCO'' \<rparr>"

definition sample_flight :: flight where
  "sample_flight =
     \<lparr> flight_flightnumber = Some 100, flightdate = Some 19875,
       availablecapacity = Some 200, timeofday = Some ''Morning'', routetype = None \<rparr>"



text \<open>
  A small network: flight 1 from FRA to FCO and flight 2 from FCO to PMO on Saturday
  2024-06-01, flight 3 from FRA to FCO on Sunday 2024-06-02. The booking on flight 2 is
  cancelled.
\<close>

definition network_bookings :: "booking list" where
  "network_bookings =
     [\<lparr> bookingid_norm = Some ''1'', reservation_date = Some 19800,
        cancellation_date = None, flight_date = Some 19875,
        origin = Some ''FRA'', destination = Some ''FCO'',
        passengercount = Some 100, revenue_ticket = Some 5000,
        revenue_ancillary_pre_check_in = None, revenue_ancillary_at_check_in = None,
        flightnumber = Some 1, routing = Some ''FRA-FCO'' \<rparr>,
      \<lparr> bookingid_norm = Some ''2'', reservation_date = Some 19800,
        cancellation_date = Some 19850, flight_date = Some 19875,
        origin = Some ''FCO'', destination = Some ''PMO'',
        passengercount = Some 30, revenue_ticket = Some 2000,
        revenue_ancillary_pre_check_in = None, revenue_ancillary_at_check_in = None,
        flightnumber = Some 2, routing = Some ''FCO-PMO'' \<rparr>,
      \<lparr> bookingid_norm = Some ''3'', reservation_date = Some 19800,
        cancellation_date = None, flight_date = Some 19876,
        origin = Some ''FRA'', destination = Some ''FCO'',
        passengercount = Some 90, revenue_ticket = Some 5000,
        revenue_ancillary_pre_check_in = None, revenue_ancillary_at_check_in = None,
        flightnumber = Some 3, routing = Some ''FRA-FCO'' \<rparr>]"

definition network_flights :: "flight list" where
  "network_flights =
     [\<lparr> flight_flightnumber = Some 1, flightdate = Some 19875,
        availablecapacity = Some 180, timeofday = None, routetype = None \<rparr>,
      \<lparr> flight_flightnumber = Some 2, flightdate = Some 19875,
        availablecapacity = Some 100, timeofday = None, routetype = None \<rparr>,
      \<lparr> flight_flightnumber = Some 3, flightdate = Some 19876,
        availablecapacity = Some 180, timeofday = None, routetype = None \<rparr>]"

definition network_legs :: "leg list" where
  "network_legs =
     [\<lparr>leg_flightnumber = Some 1, leg_flight_date = Some 19875, leg_origin = ''FRA'',
       leg_destination = ''FCO'', pax = 100, revenue = 5000, cancels = 0,
       leg_availablecapacity = Some 180, leg_timeofday = None, leg_routetype = None\<rparr>,
      \<lparr>leg_flightnumber = Some 2, leg_flight_date = Some 19875, leg_origin = ''FCO'',
       leg_destination = ''PMO'', pax = 30, revenue = 2000, cancels = 1,
       leg_availablecapacity = Some 100, leg_timeofday = None, leg_routetype = None\<rparr>,
      \<lparr>leg_flightnumber = Some 3, leg_flight_date = Some 19876, leg_origin = ''FRA'',
       leg_destination = ''FCO'', pax = 90, revenue = 5000, cancels = 0,
       leg_availablecapacity = Some 180, leg_timeofday = None, leg_routetype = None\<rparr>]"



definition flat_bookings :: "booking list" where
  "flat_bookings =
     [sample_booking\<lparr> flightnumber := Some 1, revenue_ticket := Some 100 \<rparr>,
      sample_booking\<lparr> flightnumber := Some 2, revenue_ticket := Some 200 \<rparr>,
      sample_booking\<lparr> flightnumber := Some 3, revenue_ticket := Some 300 \<rparr>]"

definition flat_flights :: "flight list" where
  "flat_flights =
     [sample_flight\<lparr> flight_flightnumber := Some 1 \<rparr>,
      sample_flight\<lparr> flight_flightnumber := Some 2 \<rparr>,
      sample_flight\<lparr> flight_flightnumber := Some 3 \<rparr>]"

text \<open>
  Frames for the data-quality checks: the booking sheet with all the columns the checks
  read, and the same sheet without the routing column; a booking without routing text.
\<close>

definition booking_columns :: "string list" where
  "booking_columns =
     [''bookingid_(pnr)'', ''reservation_date'', ''cancellation_date'', ''flight_date'',
      ''origin'', ''destination'', ''passengercount'', ''revenue_per_booking_(ticket)'',
      ''revenue_per_booking_(ancilliary_pre_check_in)'',
      ''revenue_per_booking_(ancilliary_at_check_in)'', ''flightnumber'', ''routing'',
      ''bookingid_norm'', ''routing_canonical'']"

definition sample_booking_frame :: "booking frame" where
  "sample_booking_frame =
     \<lparr> columns = booking_columns,
       frame_rows = [sample_booking, sample_booking\<lparr> bookingid_norm := Some ''1002'', routing := None \<rparr>] \<rparr>"

definition sample_passenger_frame :: "passenger frame" where
  "sample_passenger_frame =
     \<lparr> columns = [''bookingid'', ''booking_channel'', ''device_used'', ''bookingid_norm''],
       frame_rows = [\<lparr> passenger_bookingid_norm = Some ''1001'', booking_channel = Some ''App'',
                 device_used = Some ''iOS'' \<rparr>] \<rparr>"

definition sample_flight_frame :: "flight frame" where
  "sample_flight_frame =
     \<lparr> columns = [''flightnumber'', ''flightdate'', ''availablecapacity'', ''timeofday'',
                  ''routetype''],
       frame_rows = [sample_flight] \<rparr>"

section \<open>Facts about the table operations\<close>

lemma dropna_Cons:
  "dropna (c # cs) = (case c of None \<Rightarrow> dropna cs | Some v \<Rightarrow> v # dropna cs)"
  by (simp add: dropna_def split: option.splits)

lemma dropna_Nil: "dropna [] = []"
  by (simp add: dropna_def)

lemma sum_skipna_fillna0: "sum_skipna cs = sum_list (map fillna0 cs)"
  by (induction cs)
     (auto simp: sum_skipna_def dropna_Cons dropna_Nil fillna0_def split: option.splits)

lemma map_of_graph: "map_of (map (\<lambda>c. (c, g c)) cs) k = (if k \<in> set cs then Some (g k) else None)"
  by (induction cs) auto

lemma set_insort_by: "set (insort_by le x xs) = insert x (set xs)"
  by (induction xs) auto

lemma set_sort_by: "set (sort_by le xs) = set xs"
  by (induction xs) (auto simp: sort_by_def set_insort_by)

lemma groupby_graph:
  "groupby le key rows
   = map (\<lambda>k. (k, filter (\<lambda>r. key r = k) rows)) (sort_by le (remdups (map key rows)))"
  by (simp add: groupby_def)

lemma set_groupby:
  "set (groupby le key rows) = (\<lambda>r. (key r, filter (\<lambda>r'. key r' = key r) rows)) ` set rows"
  by (auto simp: groupby_def set_sort_by)

lemma merge_flight_fields:
  assumes "r \<in> set (merge_flight fl ((fn, fd, org, dst), g))"
  shows "leg_flightnumber r = fn \<and> leg_flight_date r = fd \<and> leg_origin r = org
         \<and> leg_destination r = dst
         \<and> pax r = sum_skipna (map passengercount g)
         \<and> revenue r = sum_list (map total_revenue g)
         \<and> cancels r = length (filter is_cancelled g)"
  using assms by (auto simp: merge_flight_def Let_def split: list.splits)

lemma leg_table_row:
  assumes "r \<in> set (leg_table bk fl)"
  obtains b where "b \<in> set bk"
    and "leg_flightnumber r = flightnumber b" and "leg_flight_date r = flight_date b"
    and "leg_origin r = od_code (origin b)" and "leg_destination r = od_code (destination b)"
    and "pax r = sum_skipna (map passengercount (filter (\<lambda>b'. booking_leg_key b' = booking_leg_key b) bk))"
    and "revenue r = sum_list (map total_revenue (filter (\<lambda>b'. booking_leg_key b' = booking_leg_key b) bk))"
    and "cancels r = length (filter is_cancelled (filter (\<lambda>b'. booking_leg_key b' = booking_leg_key b) bk))"
proof -
  from assms obtain kg where kg: "kg \<in> set (groupby leg_key_le booking_leg_key bk)"
    and r: "r \<in> set (merge_flight fl kg)"
    by (auto simp: leg_table_def)
  from kg obtain b where b: "b \<in> set bk"
    and kg_eq: "kg = (booking_leg_key b, filter (\<lambda>b'. booking_leg_key b' = booking_leg_key b) bk)"
    by (auto simp: set_groupby)
  have "kg = ((flightnumber b, flight_date b, od_code (origin b), od_code (destination b)),
              filter (\<lambda>b'. booking_leg_key b' = booking_leg_key b) bk)"
    using kg_eq by (simp add: booking_leg_key_def)
  with r have "r \<in> set (merge_flight fl ((flightnumber b, flight_date b, od_code (origin b),
                   od_code (destination b)),
              filter (\<lambda>b'. booking_leg_key b' = booking_leg_key b) bk))" by simp
  from merge_flight_fields [OF this] b that show ?thesis by blast
qed

lemma reindex_groupby_categorical:
  "reindex cats (map (\<lambda>(d, x). (d, f x)) (groupby_categorical cats key rows))
   = map (\<lambda>d. (d, f (filter (\<lambda>r. key r = Some d) rows))) cats"
  by (simp add: reindex_def groupby_categorical_def comp_def map_of_graph)

section \<open>Booking-id normalisation\<close>

lemma is_digit_not_space: "is_digit c \<Longrightarrow> \<not> is_space c"
  unfolding is_digit_def is_space_def Let_def
  by auto

lemma is_digit_not_space2: "is_digit c \<Longrightarrow> \<not> is_space2 c d \<and> \<not> is_space2 d c"
  unfolding is_digit_def is_space2_def Let_def
  by auto

lemma lstrip_digits: "list_all is_digit s \<Longrightarrow> lstrip s = s"
  by (cases s rule: lstrip.cases) (auto simp: is_digit_not_space is_digit_not_space2)

lemma rstrip_rev_digits: "list_all is_digit s \<Longrightarrow> rstrip_rev s = s"
  by (cases s rule: rstrip_rev.cases) (auto simp: is_digit_not_space is_digit_not_space2)

lemma strip_digits: "list_all is_digit s \<Longrightarrow> strip s = s"
proof -
  assume d: "list_all is_digit s"
  then have "list_all is_digit (rev s)" by (simp add: list_all_iff)
  with d show ?thesis by (simp add: strip_def lstrip_digits rstrip_rev_digits)
qed

lemma filter_digits: "list_all is_digit s \<Longrightarrow> filter is_digit s = s"
  by (simp add: list_all_iff)

lemma normalize_digits:
  "s \<noteq> [] \<Longrightarrow> list_all is_digit s \<Longrightarrow> normalize_booking_id (Some s) = Some s"
  by (simp add: normalize_booking_id_def strip_digits filter_digits)

lemma normalize_result:
  "normalize_booking_id x = Some t \<Longrightarrow> t \<noteq> [] \<and> list_all is_digit t"
  by (auto simp: normalize_booking_id_def Let_def list_all_iff split: option.splits if_splits)

text \<open>
  C9. Booking-id normalisation is idempotent: an already-normalised id (a non-empty
  string of digits, which is what the function returns for an id) is returned as it is,
  and normalising twice gives the same as normalising once, for every input (a missing
  id stays missing).
\<close>

theorem normalize_booking_id_idempotent:
  "(s \<noteq> [] \<and> list_all is_digit s \<longrightarrow> normalize_booking_id (Some s) = Some s) \<and>
   normalize_booking_id (normalize_booking_id x) = normalize_booking_id x"
proof
  show "s \<noteq> [] \<and> list_all is_digit s \<longrightarrow> normalize_booking_id (Some s) = Some s"
    by (simp add: normalize_digits)
next
  show "normalize_booking_id (normalize_booking_id x) = normalize_booking_id x"
  proof (cases "normalize_booking_id x")
    case None
    then show ?thesis by (simp add: normalize_booking_id_def)
  next
    case (Some t)
    then show ?thesis using normalize_result [OF Some] by (simp add: normalize_digits)
  qed
qed

theorem normalize_booking_id_idempotent_witness:
  "normalize_booking_id (Some ''001234'') = Some ''001234'' \<and>
   normalize_booking_id (normalize_booking_id (Some '' PNR-00 12a3 '')) = Some ''00123'' \<and>
   normalize_booking_id (normalize_booking_id (Some ''PNR'')) = None"
  using normalize_booking_id_idempotent [of "''001234''" "Some '' PNR-00 12a3 ''"]
    normalize_booking_id_idempotent [of "''0''" "Some ''PNR''"]
  by (simp add: normalize_booking_id_def strip_def is_digit_def is_space_def is_space2_def)

section \<open>The leg table of the sample data\<close>


lemma network_leg_table: "leg_table network_bookings network_flights = network_legs"
  by (simp add: leg_table_def groupby_def sort_by_def network_bookings_def network_legs_def
      network_flights_def booking_leg_key_def od_code_def astype_str_def
      upper_char_def clear_bit5_def strip_def is_space_def is_space2_def leg_key_le_def lex_le_def int_le_def
      merge_flight_def sum_skipna_def dropna_def total_revenue_def
      REV_COLS_def is_cancelled_def)

lemma network_realized:
  "realized network_bookings
   = [((Some 1, Some 19875), 100), ((Some 2, Some 19875), 29), ((Some 3, Some 19876), 90)]"
  by (simp add: realized_def groupby_def sort_by_def network_bookings_def flight_key_def
      lex_le_def int_le_def realized_pax_row_def fillna0_def is_cancelled_def)

lemma flat_leg_table:
  "leg_table flat_bookings flat_flights
   = [\<lparr>leg_flightnumber = Some 1, leg_flight_date = Some 19875, leg_origin = ''FRA'',
       leg_destination = ''FCO'', pax = 50, revenue = 120, cancels = 0,
       leg_availablecapacity = Some 200, leg_timeofday = Some ''Morning'', leg_routetype = None\<rparr>,
      \<lparr>leg_flightnumber = Some 2, leg_flight_date = Some 19875, leg_origin = ''FRA'',
       leg_destination = ''FCO'', pax = 50, revenue = 220, cancels = 0,
       leg_availablecapacity = Some 200, leg_timeofday = Some ''Morning'', leg_routetype = None\<rparr>,
      \<lparr>leg_flightnumber = Some 3, leg_flight_date = Some 19875, leg_origin = ''FRA'',
       leg_destination = ''FCO'', pax = 50, revenue = 320, cancels = 0,
       leg_availablecapacity = Some 200, leg_timeofday = Some ''Morning'', leg_routetype = None\<rparr>]"
  by (simp add: leg_table_def groupby_def sort_by_def flat_bookings_def sample_booking_def
      flat_flights_def sample_flight_def booking_leg_key_def od_code_def astype_str_def
      upper_char_def clear_bit5_def strip_def is_space_def is_space2_def leg_key_le_def lex_le_def int_le_def
      merge_flight_def sum_skipna_def dropna_def total_revenue_def
      REV_COLS_def is_cancelled_def)

lemma flat_corr_df:
  "corr_df (leg_table flat_bookings flat_flights) = [(1 / 4, 12 / 5), (1 / 4, 22 / 5), (1 / 4, 32 / 5)]"
  by (simp add: flat_leg_table corr_df_def load_factor_def rev_per_pax_def)

section \<open>Total revenue of a booking\<close>

text \<open>
  C8. The total revenue of a booking is the sum of its three revenue components (ticket,
  ancillary before check-in, ancillary at check-in), a missing component counting as 0;
  a booking with all three missing has total revenue 0.
\<close>

theorem total_revenue_sum:
  "total_revenue b = fillna0 (revenue_ticket b) + fillna0 (revenue_ancillary_pre_check_in b)
                      + fillna0 (revenue_ancillary_at_check_in b)
   \<and> (revenue_ticket b = None \<and> revenue_ancillary_pre_check_in b = None
        \<and> revenue_ancillary_at_check_in b = None \<longrightarrow> total_revenue b = 0)"
  by (simp add: total_revenue_def REV_COLS_def sum_skipna_fillna0 fillna0_def)

theorem total_revenue_sum_witness:
  "total_revenue sample_booking = 120
   \<and> total_revenue (sample_booking\<lparr> revenue_ticket := None,
                                      revenue_ancillary_at_check_in := None \<rparr>) = 0"
  using total_revenue_sum [of sample_booking]
    total_revenue_sum [of "sample_booking\<lparr> revenue_ticket := None,
                                           revenue_ancillary_at_check_in := None \<rparr>"]
  by (simp add: sample_booking_def fillna0_def)

section \<open>Load factor and revenue per passenger of a leg\<close>



section \<open>Scheduled load factor by weekday\<close>

text \<open>
  C1. For every weekday the scheduled load factor FWLF is the sum of the passengers of
  all legs of that weekday divided by the sum of their capacities (a missing capacity adds
  nothing), and is undefined when the summed capacity is not positive. It is not the mean
  of the legs' load factors: on the sample network the two differ.
\<close>

theorem fwlf_dow_capacity_weighted:
  "fwlf_dow leg =
     map (\<lambda>d. (d, let bucket = filter (\<lambda>r. leg_dow r = Some d) leg;
                     seats = sum_list (map (\<lambda>r. fillna0 (leg_availablecapacity r)) bucket)
                 in if seats > 0 then Some (sum_list (map pax bucket) / seats) else None))
       DOW_ORDER
   \<and> fwlf_dow network_legs
       \<noteq> map (\<lambda>d. (d, mean_skipna (map load_factor
                                   (filter (\<lambda>r. leg_dow r = Some d) network_legs))))
           DOW_ORDER"
proof
  show "fwlf_dow leg =
     map (\<lambda>d. (d, let bucket = filter (\<lambda>r. leg_dow r = Some d) leg;
                     seats = sum_list (map (\<lambda>r. fillna0 (leg_availablecapacity r)) bucket)
                 in if seats > 0 then Some (sum_list (map pax bucket) / seats) else None))
       DOW_ORDER"
    by (simp add: fwlf_dow_def reindex_groupby_categorical fwlf_def sum_skipna_fillna0
        comp_def Let_def)
next
  have "fwlf_dow network_legs ! 5 = (''Saturday'', Some (13 / 28))"
    by (simp add: fwlf_dow_def reindex_groupby_categorical fwlf_def sum_skipna_fillna0 comp_def
        DOW_ORDER_def network_legs_def leg_dow_def day_name_def fillna0_def)
  moreover have "map (\<lambda>d. (d, mean_skipna (map load_factor
                         (filter (\<lambda>r. leg_dow r = Some d) network_legs)))) DOW_ORDER ! 5
                 = (''Saturday'', Some (77 / 180))"
    by (simp add: DOW_ORDER_def network_legs_def leg_dow_def day_name_def mean_skipna_def
        dropna_def load_factor_def)
  ultimately show "fwlf_dow network_legs
       \<noteq> map (\<lambda>d. (d, mean_skipna (map load_factor
                                   (filter (\<lambda>r. leg_dow r = Some d) network_legs))))
           DOW_ORDER"
    by auto
qed

theorem fwlf_dow_capacity_weighted_witness:
  "fwlf_dow (leg_table network_bookings network_flights)
   = [(''Monday'', None), (''Tuesday'', None), (''Wednesday'', None), (''Thursday'', None),
      (''Friday'', None), (''Saturday'', Some (13 / 28)), (''Sunday'', Some (1 / 2))]"
  using fwlf_dow_capacity_weighted [of network_legs]
  by (simp add: network_leg_table DOW_ORDER_def network_legs_def leg_dow_def day_name_def
      fillna0_def)

section \<open>Realized load factor by weekday\<close>

lemma realized_lookup:
  assumes "b \<in> set bk" and "flightnumber b \<noteq> None" and "flight_date b \<noteq> None"
  shows "map_of (realized bk) (flight_key b)
         = Some (sum_list (map realized_pax_row (filter (\<lambda>b'. flight_key b' = flight_key b) bk)))"
proof -
  let ?bk = "filter (\<lambda>b. flightnumber b \<noteq> None \<and> flight_date b \<noteq> None) bk"
  let ?le = "lex_le (nan_last int_le) (nan_last int_le)"
  have r: "realized bk = map (\<lambda>k. (k, sum_list (map realized_pax_row (filter (\<lambda>r. flight_key r = k) ?bk))))
              (sort_by ?le (remdups (map flight_key ?bk)))"
    by (simp add: realized_def groupby_def)
  have mem: "flight_key b \<in> set (sort_by ?le (remdups (map flight_key ?bk)))"
    using assms by (auto simp: set_sort_by)
  have f: "filter (\<lambda>r. flight_key r = flight_key b) ?bk = filter (\<lambda>b'. flight_key b' = flight_key b) bk"
    using assms(2,3) by (auto simp: flight_key_def intro!: filter_cong)
  show ?thesis
    unfolding r by (simp only: map_of_graph mem if_True f)
qed

lemma realized_pax_row_sum:
  "sum_list (map realized_pax_row g)
   = sum_skipna (map passengercount g) - real (length (filter is_cancelled g))"
  by (induction g) (auto simp: realized_pax_row_def sum_skipna_fillna0)

lemma same_flight_same_leg:
  assumes "\<forall>b\<in>set bk. \<forall>b'\<in>set bk. flight_key b = flight_key b' \<longrightarrow> booking_leg_key b = booking_leg_key b'"
    and "b \<in> set bk"
  shows "filter (\<lambda>b'. flight_key b' = flight_key b) bk
         = filter (\<lambda>b'. booking_leg_key b' = booking_leg_key b) bk"
proof (rule filter_cong [OF refl])
  fix x assume x: "x \<in> set bk"
  have "flight_key x = flight_key b \<Longrightarrow> booking_leg_key x = booking_leg_key b"
    using assms x by blast
  moreover have "booking_leg_key x = booking_leg_key b \<Longrightarrow> flight_key x = flight_key b"
    by (simp add: flight_key_def booking_leg_key_def)
  ultimately show "(flight_key x = flight_key b) = (booking_leg_key x = booking_leg_key b)"
    by blast
qed

lemma realized_pax_leg:
  assumes one: "\<forall>b\<in>set bk. \<forall>b'\<in>set bk. flight_key b = flight_key b' \<longrightarrow> booking_leg_key b = booking_leg_key b'"
    and fn: "\<forall>b\<in>set bk. flightnumber b \<noteq> None"
    and r: "r \<in> set (leg_table bk fl)" and d: "leg_dow r = Some d"
  shows "realized_pax bk r = Some (pax r - real (cancels r))"
proof -
  from r obtain b where b: "b \<in> set bk"
    and k: "leg_flightnumber r = flightnumber b" "leg_flight_date r = flight_date b"
    and p: "pax r = sum_skipna (map passengercount (filter (\<lambda>b'. booking_leg_key b' = booking_leg_key b) bk))"
    and c: "cancels r = length (filter is_cancelled (filter (\<lambda>b'. booking_leg_key b' = booking_leg_key b) bk))"
    by (rule leg_table_row)
  from d k have fd: "flight_date b \<noteq> None" by (auto simp: leg_dow_def)
  from fn b have fnb: "flightnumber b \<noteq> None" by blast
  have "realized_pax bk r = map_of (realized bk) (flight_key b)"
    by (simp add: realized_pax_def k flight_key_def)
  also have "\<dots> = Some (sum_list (map realized_pax_row (filter (\<lambda>b'. flight_key b' = flight_key b) bk)))"
    by (rule realized_lookup [OF b fnb fd])
  also have "\<dots> = Some (pax r - real (cancels r))"
    by (simp only: same_flight_same_leg [OF one b] realized_pax_row_sum p c)
  finally show ?thesis .
qed

lemma network_calf_dow:
  "calf_dow network_bookings network_legs
   = [(''Monday'', None), (''Tuesday'', None), (''Wednesday'', None), (''Thursday'', None),
      (''Friday'', None), (''Saturday'', Some (761 / 1800)), (''Sunday'', Some (1 / 2))]"
  by (simp add: calf_dow_def reindex_groupby_categorical calf_def realized_pax_def
      network_realized mean_skipna_def dropna_def DOW_ORDER_def network_legs_def leg_dow_def
      day_name_def)

text \<open>
  C2, as stated: CALF is FWLF computed on the leg table in which the passengers of each
  leg are replaced by the booked passengers less the cancelled bookings. On the sample
  network the Saturday values differ (761/1800 against 129/280).
\<close>

theorem calf_dow_not_capacity_weighted:
  "calf_dow network_bookings (leg_table network_bookings network_flights)
   \<noteq> fwlf_dow (map (\<lambda>r. r\<lparr> pax := pax r - real (cancels r) \<rparr>)
                  (leg_table network_bookings network_flights))"
proof -
  have "fwlf_dow (map (\<lambda>r. r\<lparr> pax := pax r - real (cancels r) \<rparr>) network_legs) ! 5
        = (''Saturday'', Some (129 / 280))"
    by (simp add: fwlf_dow_def reindex_groupby_categorical fwlf_def sum_skipna_fillna0 comp_def
        DOW_ORDER_def network_legs_def leg_dow_def day_name_def fillna0_def)
  moreover have "calf_dow network_bookings network_legs ! 5 = (''Saturday'', Some (761 / 1800))"
    by (simp add: network_calf_dow)
  ultimately show ?thesis
    unfolding network_leg_table by auto
qed

text \<open>
  C2, amended: CALF by weekday is the mean, over the legs of the weekday, of the per-leg
  ratio (booked passengers less cancelled bookings) / capacity, legs with a missing or
  non-positive capacity being left out of the mean; it is an average of per-leg ratios and
  not a capacity-weighted ratio of sums. This is shown for bookings that all carry a
  flight number and in which a flight number and date belong to one origin and
  destination.
\<close>

theorem calf_dow_mean_of_leg_ratios:
  assumes "\<forall>b\<in>set bk. \<forall>b'\<in>set bk. flight_key b = flight_key b' \<longrightarrow> booking_leg_key b = booking_leg_key b'"
    and "\<forall>b\<in>set bk. flightnumber b \<noteq> None"
  shows "calf_dow bk (leg_table bk fl)
         = map (\<lambda>d. (d, mean_skipna (map leg_realized_ratio
                          (filter (\<lambda>r. leg_dow r = Some d) (leg_table bk fl))))) DOW_ORDER"
proof -
  have eq: "map (calf bk) (filter (\<lambda>r. leg_dow r = Some d) (leg_table bk fl))
        = map leg_realized_ratio (filter (\<lambda>r. leg_dow r = Some d) (leg_table bk fl))" for d
  proof (rule map_cong [OF refl])
    fix r assume "r \<in> set (filter (\<lambda>r. leg_dow r = Some d) (leg_table bk fl))"
    then have "r \<in> set (leg_table bk fl)" and "leg_dow r = Some d" by auto
    from realized_pax_leg [OF assms this]
    show "calf bk r = leg_realized_ratio r"
      by (simp add: calf_def leg_realized_ratio_def split: option.splits)
  qed
  have "calf_dow bk (leg_table bk fl)
        = map (\<lambda>d. (d, mean_skipna (map (calf bk)
                          (filter (\<lambda>r. leg_dow r = Some d) (leg_table bk fl))))) DOW_ORDER"
    unfolding calf_dow_def by (rule reindex_groupby_categorical)
  then show ?thesis
    by (simp only: eq)
qed


theorem calf_dow_mean_of_leg_ratios_witness:
  "calf_dow network_bookings (leg_table network_bookings network_flights)
   = [(''Monday'', None), (''Tuesday'', None), (''Wednesday'', None), (''Thursday'', None),
      (''Friday'', None), (''Saturday'', Some (761 / 1800)), (''Sunday'', Some (1 / 2))]"
proof -
  have one: "\<forall>b\<in>set network_bookings. \<forall>b'\<in>set network_bookings.
               flight_key b = flight_key b' \<longrightarrow> booking_leg_key b = booking_leg_key b'"
    by (simp add: network_bookings_def flight_key_def booking_leg_key_def)
  have fn: "\<forall>b\<in>set network_bookings. flightnumber b \<noteq> None"
    by (simp add: network_bookings_def)
  show ?thesis
    using calf_dow_mean_of_leg_ratios [OF one fn, of network_flights]
    unfolding network_leg_table
    by (simp add: DOW_ORDER_def network_legs_def leg_dow_def day_name_def
        leg_realized_ratio_def mean_skipna_def dropna_def)
qed

section \<open>Per-seat contribution\<close>

text \<open>
  The formula of PACS, for any credit percentage and variable cost: a leg with a positive
  capacity \<open>c\<close> and a connection credit \<open>k\<close> has (revenue + k - cost * c) / c; a leg
  with a missing or non-positive capacity has none. A leg that is not the feeder FRA-FCO
  has credit 0, and so has every leg when the table holds no FCO-PMO leg at all.
\<close>

lemma pacs_undefined:
  "leg_availablecapacity r = None \<or> (\<exists>c. leg_availablecapacity r = Some c \<and> c \<le> 0)
   \<Longrightarrow> pacs pct vc onward r = None"
  by (auto simp: pacs_def Let_def)

lemma pacs_formula:
  "leg_availablecapacity r = Some c \<Longrightarrow> c > 0 \<Longrightarrow> connection_credit pct onward r = Some k
   \<Longrightarrow> pacs pct vc onward r = Some ((revenue r + k - vc * c) / c)"
  by (simp add: pacs_def Let_def mult.commute)

lemma connection_credit_other:
  "\<not> (leg_origin r = ''FRA'' \<and> leg_destination r = ''FCO'')
   \<Longrightarrow> connection_credit pct onward r = Some 0"
  by (auto simp: connection_credit_def)

lemma connection_credit_no_onward_leg:
  "fco_pmo leg = [] \<Longrightarrow> connection_credit pct (onward_rev_map leg) r = Some 0"
  by (simp add: connection_credit_def onward_rev_map_def dict_get_def split: option.splits)

lemma onward_rev_map_lookup:
  "fco_pmo leg \<noteq> [] \<Longrightarrow> d \<in> set DOW_ORDER \<Longrightarrow>
   map_of (onward_rev_map leg) d
   = Some (mean_skipna (map (\<lambda>r. Some (revenue r)) (filter (\<lambda>r. leg_dow r = Some d) (fco_pmo leg))))"
  by (simp add: onward_rev_map_def groupby_categorical_def comp_def map_of_graph)

lemma pacs_scenario:
  "pacs 0.15 25 [] \<lparr>leg_flightnumber = Some 100, leg_flight_date = Some 19875, leg_origin = ''FRA'',
       leg_destination = ''FCO'', pax = 110, revenue = 5000, cancels = 0,
       leg_availablecapacity = Some 180, leg_timeofday = None, leg_routetype = None\<rparr>
     = Some ((5000 - 180 * 25) / 180)
   \<and> pacs 0.15 25 [(''Saturday'', Some 2000)]
       \<lparr>leg_flightnumber = Some 100, leg_flight_date = Some 19875, leg_origin = ''FRA'',
       leg_destination = ''FCO'', pax = 110, revenue = 5000, cancels = 0,
       leg_availablecapacity = Some 180, leg_timeofday = None, leg_routetype = None\<rparr>
     = Some ((5000 + 300 - 4500) / 180)"
  by (simp add: pacs_def connection_credit_def dict_get_def leg_dow_def day_name_def DOW_ORDER_def)

text \<open>
  C3 at the sample network. The Sunday leg from FRA to FCO has a positive capacity, and
  the FCO-PMO legs (there is one, on Saturday) have no Sunday row: the specification
  gives it the credit 0 and the value (5000 - 40 * 180) / 180. The dictionary holds the
  Sunday key with a missing mean, so the default of \<open>.get\<close> is not taken and the PACS
  of the leg is missing.
\<close>

theorem pacs_feeder_without_onward_weekday:
  "pacs_vals (leg_table network_bookings network_flights)
   = [(Some ''Saturday'', Some (- (85 / 9))), (Some ''Saturday'', Some (- 20)),
      (Some ''Sunday'', None)]
   \<and> filter (\<lambda>r. leg_dow r = Some ''Sunday'') (fco_pmo (leg_table network_bookings network_flights)) = []"
  unfolding network_leg_table
  by (simp add: pacs_vals_def pacs_def connection_credit_def dict_get_def onward_rev_map_def
      fco_pmo_def groupby_categorical_def mean_skipna_def dropna_def network_legs_def
      leg_dow_def day_name_def DOW_ORDER_def connection_value_pct_def
      variable_cost_per_seat_leg_def)

section \<open>Tables by weekday\<close>


















section \<open>Correlation of load factor and revenue per passenger\<close>

lemma sum_sq_dev_zero_iff:
  "sum_list (map (\<lambda>x. (x - m) ^ 2) xs) = 0 \<longleftrightarrow> (\<forall>x\<in>set xs. x = (m::real))"
proof -
  have "sum_list (map (\<lambda>x. (x - m) ^ 2) xs) = 0
        \<longleftrightarrow> (\<forall>v\<in>set (map (\<lambda>x. (x - m) ^ 2) xs). v = 0)"
    by (rule sum_list_nonneg_eq_0_iff) auto
  then show ?thesis by auto
qed

lemma sum_list_const: "(\<forall>x\<in>set xs. x = (c::real)) \<Longrightarrow> sum_list xs = real (length xs) * c"
  by (induction xs) (auto simp: algebra_simps)

lemma mean_const: "xs \<noteq> [] \<Longrightarrow> (\<forall>x\<in>set xs. x = c) \<Longrightarrow> mean xs = c"
  by (simp add: mean_def sum_list_const)

lemma ssqdm_zero_iff:
  assumes "xs \<noteq> []"
  shows "ssqdm xs = 0 \<longleftrightarrow> (\<forall>a\<in>set xs. \<forall>b\<in>set xs. a = b)"
proof
  assume "ssqdm xs = 0"
  then have "\<forall>x\<in>set xs. x = mean xs" by (simp add: ssqdm_def sum_sq_dev_zero_iff)
  then show "\<forall>a\<in>set xs. \<forall>b\<in>set xs. a = b" by metis
next
  assume eq: "\<forall>a\<in>set xs. \<forall>b\<in>set xs. a = b"
  from assms obtain c where c: "c \<in> set xs" by (cases xs) auto
  with eq have all: "\<forall>x\<in>set xs. x = c" by blast
  with assms have "mean xs = c" by (rule mean_const)
  with all show "ssqdm xs = 0" by (simp add: ssqdm_def sum_sq_dev_zero_iff)
qed

lemma pearson_None_iff:
  "pearson ps = None \<longleftrightarrow> ssqdm (map fst ps) = 0 \<or> ssqdm (map snd ps) = 0"
  by (simp add: pearson_def Let_def)

lemma pearson_defined_iff:
  assumes "ps \<noteq> []"
  shows "pearson ps \<noteq> None
         \<longleftrightarrow> (\<exists>p\<in>set ps. \<exists>q\<in>set ps. fst p \<noteq> fst q) \<and> (\<exists>p\<in>set ps. \<exists>q\<in>set ps. snd p \<noteq> snd q)"
proof -
  from assms have "map fst ps \<noteq> []" "map snd ps \<noteq> []" by auto
  from ssqdm_zero_iff [OF this(1)] ssqdm_zero_iff [OF this(2)]
  show ?thesis by (auto simp: pearson_None_iff)
qed

lemma corr_df_filter:
  "corr_df leg = map (\<lambda>r. (the (load_factor r), the (rev_per_pax r)))
                   (filter (\<lambda>r. load_factor r \<noteq> None \<and> rev_per_pax r \<noteq> None) leg)"
  by (induction leg) (auto simp: corr_df_def split: option.splits)

text \<open>
  C7, as stated: a number is reported as soon as three legs have both values. Three legs
  with 50 passengers on 200 seats each and revenues of 120, 220 and 320 have both values,
  and the reported correlation is missing: the load factor does not vary, so the divisor
  of the coefficient is 0.
\<close>

theorem rev_lf_corr_constant_load_factor:
  "length (corr_df (leg_table flat_bookings flat_flights)) = 3
   \<and> rev_lf_corr (leg_table flat_bookings flat_flights) = None"
  by (simp add: rev_lf_corr_def flat_corr_df pearson_def mean_def ssqdm_def)

text \<open>
  C7, amended. The correlation is computed over the legs on which both the load factor
  and the revenue per passenger are defined. With fewer than three such legs it is
  missing; with three or more it is the Pearson coefficient of these legs, which is a
  number exactly when neither the load factors nor the revenues per passenger of these
  legs are all equal.
\<close>

theorem rev_lf_corr_defined_iff:
  "corr_df leg = map (\<lambda>r. (the (load_factor r), the (rev_per_pax r)))
                   (filter (\<lambda>r. load_factor r \<noteq> None \<and> rev_per_pax r \<noteq> None) leg)
   \<and> (length (corr_df leg) < 3 \<longrightarrow> rev_lf_corr leg = None)
   \<and> (length (corr_df leg) \<ge> 3 \<longrightarrow> rev_lf_corr leg = pearson (corr_df leg))
   \<and> (rev_lf_corr leg \<noteq> None
        \<longleftrightarrow> length (corr_df leg) \<ge> 3
            \<and> (\<exists>p\<in>set (corr_df leg). \<exists>q\<in>set (corr_df leg). fst p \<noteq> fst q)
            \<and> (\<exists>p\<in>set (corr_df leg). \<exists>q\<in>set (corr_df leg). snd p \<noteq> snd q))"
proof (intro conjI)
  show "corr_df leg = map (\<lambda>r. (the (load_factor r), the (rev_per_pax r)))
                   (filter (\<lambda>r. load_factor r \<noteq> None \<and> rev_per_pax r \<noteq> None) leg)"
    by (rule corr_df_filter)
  show "length (corr_df leg) < 3 \<longrightarrow> rev_lf_corr leg = None"
    by (simp add: rev_lf_corr_def)
  show "length (corr_df leg) \<ge> 3 \<longrightarrow> rev_lf_corr leg = pearson (corr_df leg)"
    by (simp add: rev_lf_corr_def)
  show "rev_lf_corr leg \<noteq> None
        \<longleftrightarrow> length (corr_df leg) \<ge> 3
            \<and> (\<exists>p\<in>set (corr_df leg). \<exists>q\<in>set (corr_df leg). fst p \<noteq> fst q)
            \<and> (\<exists>p\<in>set (corr_df leg). \<exists>q\<in>set (corr_df leg). snd p \<noteq> snd q)"
  proof (cases "length (corr_df leg) > 2")
    case True
    then have "corr_df leg \<noteq> []" by auto
    from pearson_defined_iff [OF this] True show ?thesis
      by (simp add: rev_lf_corr_def)
  next
    case False
    then show ?thesis by (simp add: rev_lf_corr_def)
  qed
qed

lemma network_corr_df:
  "corr_df network_legs = [(5 / 9, 50), (3 / 10, 200 / 3), (1 / 2, 500 / 9)]"
  by (simp add: network_legs_def corr_df_def load_factor_def rev_per_pax_def)

lemma network_corr_df2:
  "corr_df (take 2 network_legs) = [(5 / 9, 50), (3 / 10, 200 / 3)]"
  by (simp add: network_legs_def corr_df_def load_factor_def rev_per_pax_def)

theorem rev_lf_corr_defined_iff_witness:
  "rev_lf_corr (leg_table network_bookings network_flights) \<noteq> None
   \<and> rev_lf_corr (take 2 (leg_table network_bookings network_flights)) = None"
proof -
  have x: "\<exists>p\<in>set (corr_df network_legs). \<exists>q\<in>set (corr_df network_legs). fst p \<noteq> fst q"
    by (rule bexI [of _ "(5 / 9, 50)"], rule bexI [of _ "(3 / 10, 200 / 3)"])
       (simp_all add: network_corr_df)
  have y: "\<exists>p\<in>set (corr_df network_legs). \<exists>q\<in>set (corr_df network_legs). snd p \<noteq> snd q"
    by (rule bexI [of _ "(5 / 9, 50)"], rule bexI [of _ "(3 / 10, 200 / 3)"])
       (simp_all add: network_corr_df)
  have n: "length (corr_df network_legs) \<ge> 3"
    by (simp add: network_corr_df)
  have "rev_lf_corr network_legs \<noteq> None"
    using rev_lf_corr_defined_iff [of network_legs, THEN conjunct2, THEN conjunct2, THEN conjunct2]
      x y n by blast
  moreover have "rev_lf_corr (take 2 network_legs) = None"
    using rev_lf_corr_defined_iff [of "take 2 network_legs", THEN conjunct2, THEN conjunct1]
    by (simp add: network_corr_df2)
  ultimately show ?thesis by (simp add: network_leg_table)
qed

section \<open>Data-quality checks\<close>

lemma require_Inr:
  "require cols needed k = Inr v \<longleftrightarrow> set needed \<subseteq> set cols \<and> k = Inr v"
proof (cases "filter (\<lambda>c. c \<notin> set cols) needed")
  case Nil
  then have "set needed \<subseteq> set cols" by (auto simp: filter_empty_conv)
  with Nil show ?thesis by (simp add: require_def)
next
  case (Cons a list)
  then have "a \<in> set (filter (\<lambda>c. c \<notin> set cols) needed)" by simp
  then have "\<not> set needed \<subseteq> set cols" by auto
  with Cons show ?thesis by (simp add: require_def)
qed

lemma dq_checks_Inr:
  "dq_checks bf pf ff = Inr out \<longleftrightarrow>
     set (REV_COL_NAMES @ [''passengercount'', ''flightnumber'', ''flight_date'', ''origin'',
           ''destination'', ''routing'', ''bookingid_norm'', ''cancellation_date''])
       \<subseteq> set (columns bf)
     \<and> set [''flightnumber'', ''flightdate'', ''availablecapacity''] \<subseteq> set (columns ff)
     \<and> out = guarded_checks bf pf
              @ unguarded_checks (frame_rows bf) (dq_leg_table (frame_rows bf) (frame_rows ff))"
  unfolding dq_checks_def Let_def require_Inr by auto

lemma guarded_checks_names:
  "fst ` set (guarded_checks bf pf)
   \<subseteq> {''canceled_with_checkin_ancillary'', ''cancellation_before_reservation'',
       ''reservation_after_flight'', ''same_booking_multiple_channels'',
       ''same_booking_multiple_devices''}"
  by (auto simp: guarded_checks_def guarded_def Let_def)

lemma map_of_guarded_checks_routing:
  "map_of (guarded_checks bf pf) ''routing_inconsistent_with_od'' = None"
proof -
  have "''routing_inconsistent_with_od'' \<notin> fst ` set (guarded_checks bf pf)"
    using guarded_checks_names [of bf pf] by auto
  then show ?thesis by (simp add: map_of_eq_None_iff)
qed

lemma dq_checks_routing:
  assumes "dq_checks bf pf ff = Inr out"
  shows "map_of out ''routing_inconsistent_with_od''
         = Some (Bookings (filter routing_inconsistent (frame_rows bf)))"
proof -
  from assms have "out = guarded_checks bf pf
              @ unguarded_checks (frame_rows bf) (dq_leg_table (frame_rows bf) (frame_rows ff))"
    by (simp add: dq_checks_Inr)
  then show ?thesis
    by (simp add: map_of_append map_add_def map_of_guarded_checks_routing unguarded_checks_def)
qed

lemma squash_None: "squash None = ''NAN''"
  by (simp add: squash_def astype_str_def upper_char_def clear_bit5_def replace_spaces_def)

lemma neq_by_char: "c \<in> set t \<Longrightarrow> c \<notin> set s \<Longrightarrow> s \<noteq> t"
  by auto

lemma routing_missing_inconsistent: "routing b = None \<Longrightarrow> routing_inconsistent b"
proof -
  assume r: "routing b = None"
  have 1: "''NAN'' \<noteq> squash (origin b) @ ''-'' @ squash (destination b)"
    by (rule neq_by_char [of "CHR ''-''"]) simp_all
  have 2: "''NAN'' \<noteq> squash (origin b) @ od_sep2 @ squash (destination b)"
    by (rule neq_by_char [of "CHR 0xC3"]) (simp_all add: od_sep2_def)
  from 1 2 show ?thesis
    by (simp only: routing_inconsistent_def Let_def r squash_None de_Morgan_disj simp_thms)
qed

lemma sample_dq_checks:
  "dq_checks sample_booking_frame sample_passenger_frame sample_flight_frame
   = Inr (guarded_checks sample_booking_frame sample_passenger_frame
          @ unguarded_checks (frame_rows sample_booking_frame)
              (dq_leg_table (frame_rows sample_booking_frame) (frame_rows sample_flight_frame)))"
  by (simp add: dq_checks_Inr sample_booking_frame_def booking_columns_def
      sample_flight_frame_def REV_COL_NAMES_def)

text \<open>
  A guarded check whose columns are absent is skipped: when the function returns, a
  booking sheet without reservation dates yields no entry for the two checks that read
  them, and the summary has one line per entry of the result.
\<close>

lemma guarded_check_skipped:
  assumes "dq_checks bf pf ff = Inr out" and "''reservation_date'' \<notin> set (columns bf)"
  shows "''cancellation_before_reservation'' \<notin> fst ` set out"
    and "''reservation_after_flight'' \<notin> fst ` set out"
  using assms
  by (auto simp: dq_checks_Inr guarded_checks_def guarded_def unguarded_checks_def Let_def)

lemma summary_names: "map fst (summary out) = map fst out"
  by (simp add: summary_def case_prod_unfold)

text \<open>
  C6 at a booking sheet that has every column but the routing text: the routing check
  is not skipped, the selection of line 124 raises and the function returns nothing,
  where the specification has the run complete with that check left out.
\<close>

theorem dq_checks_missing_routing_column:
  "dq_checks (sample_booking_frame\<lparr> columns := remove1 ''routing'' booking_columns \<rparr>)
     sample_passenger_frame sample_flight_frame = Inl (KeyError ''routing'')"
  by (simp add: dq_checks_def Let_def require_def sample_booking_frame_def booking_columns_def
      sample_flight_frame_def REV_COL_NAMES_def)

text \<open>
  The routing text is upper-cased as a whole, so a routing that is written with the
  second separator has its first character turned into U+00C2 and differs from the
  canonical text, whose separator is added after the upper-casing.
\<close>

lemma second_separator_upper_cased:
  "routing_inconsistent (sample_booking\<lparr> origin := Some ''FRA'',
                                           routing := Some (''FRA'' @ od_sep2 @ ''FCO'') \<rparr>)"
  by (simp add: routing_inconsistent_def squash_def astype_str_def replace_spaces_def
      od_sep2_def upper_char_def clear_bit5_def sample_booking_def)

text \<open>
  C10. Whenever the checks return, every booking whose routing text is missing is among
  the rows reported as routing-inconsistent: the missing value becomes the text NAN,
  which is neither origin-destination with a hyphen nor with the second separator.
\<close>

theorem missing_routing_flagged:
  assumes "dq_checks bf pf ff = Inr out" and "b \<in> set (frame_rows bf)" and "routing b = None"
  shows "\<exists>bs. map_of out ''routing_inconsistent_with_od'' = Some (Bookings bs) \<and> b \<in> set bs"
  using dq_checks_routing [OF assms(1)] assms(2) routing_missing_inconsistent [OF assms(3)]
  by simp

theorem missing_routing_flagged_witness:
  "\<exists>out bs. dq_checks sample_booking_frame sample_passenger_frame sample_flight_frame = Inr out
      \<and> map_of out ''routing_inconsistent_with_od'' = Some (Bookings bs)
      \<and> sample_booking\<lparr> bookingid_norm := Some ''1002'', routing := None \<rparr> \<in> set bs"
proof -
  let ?b = "sample_booking\<lparr> bookingid_norm := Some ''1002'', routing := None \<rparr>"
  have mem: "?b \<in> set (frame_rows sample_booking_frame)"
    by (simp add: sample_booking_frame_def)
  have miss: "routing ?b = None"
    by simp
  from missing_routing_flagged [OF sample_dq_checks mem miss] sample_dq_checks
  show ?thesis by blast
qed

end
